theory Spec2Isabelle
  imports Complex_Main
begin

section \<open>TimerEngine: the data model\<close>

text \<open>
  A shallow embedding of \<^verbatim>\<open>src/js/components/TimerEngine.js\<close>. JavaScript numbers are
  modelled as exact reals: rounding of doubles is ignored, and \<^verbatim>\<open>NaN\<close> and the
  infinities are outside the model (every numeric field holds a finite number). Where
  JavaScript would produce a non-finite value from finite operands (division and remainder
  by zero) the model returns \<open>None\<close>. The argument of \<^verbatim>\<open>configure\<close> alone is also
  modelled with numbers that need not be finite (\<open>configureJs\<close>).
\<close>

datatype phase = Focus | ShortBreak | LongBreak

text \<open>\<^verbatim>\<open>this.state\<close>\<close>

record timer_state =
  phase :: phase
  remainingTime :: real
  totalTime :: real
  isRunning :: bool
  currentCycle :: real
  sessionCount :: real

text \<open>\<^verbatim>\<open>this.config\<close>\<close>

record timer_config =
  focusTime :: real
  shortBreakTime :: real
  longBreakTime :: real
  longBreakInterval :: real

text \<open>
  An object literal that carries some of the configuration properties: the argument of
  \<^verbatim>\<open>configure\<close> and the \<^verbatim>\<open>config\<close> member of a stored snapshot. \<open>None\<close> is a
  property that is absent (or \<^verbatim>\<open>undefined\<close>).
\<close>

record config_fields =
  cFocusTime :: "real option"
  cShortBreakTime :: "real option"
  cLongBreakTime :: "real option"
  cLongBreakInterval :: "real option"

text \<open>The \<^verbatim>\<open>state\<close> member of a stored snapshot, property by property.\<close>

record state_fields =
  sPhase :: "phase option"
  sRemainingTime :: "real option"
  sTotalTime :: "real option"
  sIsRunning :: "bool option"
  sCurrentCycle :: "real option"
  sSessionCount :: "real option"

text \<open>
  What \<^verbatim>\<open>localStorage.getItem('timerEngine:state')\<close> followed by \<^verbatim>\<open>JSON.parse\<close>
  yields in \<^verbatim>\<open>loadState\<close>:
  \<^item> \<open>NoItem\<close>: \<^verbatim>\<open>getItem\<close> returned \<^verbatim>\<open>null\<close> or the empty string (\<^verbatim>\<open>!saved\<close>);
  \<^item> \<open>Unparsable\<close>: \<^verbatim>\<open>getItem\<close> or \<^verbatim>\<open>JSON.parse\<close> threw, or the text parsed to
    \<^verbatim>\<open>null\<close>, which the destructuring assignment cannot take apart;
  \<^item> \<open>Parsed st cf\<close>: the text parsed; \<open>st\<close> is its \<^verbatim>\<open>state\<close> member, \<open>None\<close> when that
    member is absent, \<^verbatim>\<open>null\<close> or a primitive (the strict-mode assignment
    \<^verbatim>\<open>state.isRunning = false\<close> then throws); \<open>cf\<close> is its \<^verbatim>\<open>config\<close> member, \<open>None\<close>
    when there is nothing to spread.
  The \<^verbatim>\<open>timestamp\<close> member is written by \<^verbatim>\<open>saveState\<close> and never read: it is left out.
\<close>

datatype stored = NoItem | Unparsable | Parsed "state_fields option" "config_fields option"

text \<open>Payloads of the events the engine dispatches.\<close>

datatype event =
    TimerConfigured timer_config
  | TimerStart phase real real
  | TimerPause phase real
  | TimerReset phase real
  | TimerTick real phase "real option"
  | TimerComplete phase phase real real
  | TimerPhaseChange phase phase real

text \<open>What the engine asks of the browser, in the order it asks.\<close>

datatype effect =
    RequestFrame nat
  | CancelFrame nat
  | SetInterval nat
  | ClearInterval nat
  | Emit event

datatype js_error = TypeError

text \<open>
  The instance fields of the class, followed by the part of the browser the engine talks
  to: \<open>nextHandle\<close> is the next request id that \<^verbatim>\<open>requestAnimationFrame\<close> or
  \<^verbatim>\<open>setInterval\<close> hands out, \<open>storage\<close> is the item under the key
  \<^verbatim>\<open>timerEngine:state\<close>, \<open>storageWritable\<close> is false when \<^verbatim>\<open>setItem\<close> throws, and
  \<open>effects\<close> is the log of requests and dispatched events, oldest first.
\<close>

record engine =
  state :: timer_state
  config :: timer_config
  startTimestamp :: "real option"
  pausedDuration :: real
  rafId :: "nat option"
  intervalId :: "nat option"
  lastTickTime :: "real option"
  isTabVisible :: bool
  nextHandle :: nat
  storage :: stored
  storageWritable :: bool
  effects :: "effect list"

section \<open>JavaScript helpers\<close>

text \<open>A number read where the field may still be \<^verbatim>\<open>null\<close>: \<^verbatim>\<open>null\<close> converts to 0.\<close>

definition toNumber :: "real option \<Rightarrow> real" where
  "toNumber v = (case v of None \<Rightarrow> 0 | Some x \<Rightarrow> x)"

definition trunc :: "real \<Rightarrow> int" where
  "trunc r = (if 0 \<le> r then \<lfloor>r\<rfloor> else \<lceil>r\<rceil>)"

text \<open>
  The remainder operator \<^verbatim>\<open>x % y\<close>: the result has the sign of the dividend, and the
  remainder by zero is \<^verbatim>\<open>NaN\<close> (here \<open>None\<close>), which is not \<^verbatim>\<open>=== 0\<close>.
\<close>

definition js_rem :: "real \<Rightarrow> real \<Rightarrow> real option" where
  "js_rem x y = (if y = 0 then None else Some (x - y * of_int (trunc (x / y))))"

text \<open>\<^verbatim>\<open>{ ...this.config, ...c }\<close>\<close>

definition merge_config :: "timer_config \<Rightarrow> config_fields \<Rightarrow> timer_config" where
  "merge_config old c =
     \<lparr> focusTime = (case cFocusTime c of None \<Rightarrow> focusTime old | Some v \<Rightarrow> v),
       shortBreakTime = (case cShortBreakTime c of None \<Rightarrow> shortBreakTime old | Some v \<Rightarrow> v),
       longBreakTime = (case cLongBreakTime c of None \<Rightarrow> longBreakTime old | Some v \<Rightarrow> v),
       longBreakInterval =
         (case cLongBreakInterval c of None \<Rightarrow> longBreakInterval old | Some v \<Rightarrow> v) \<rparr>"

text \<open>\<^verbatim>\<open>{ ...this.state, ...s }\<close>\<close>

definition merge_state :: "timer_state \<Rightarrow> state_fields \<Rightarrow> timer_state" where
  "merge_state old s =
     \<lparr> phase = (case sPhase s of None \<Rightarrow> phase old | Some v \<Rightarrow> v),
       remainingTime = (case sRemainingTime s of None \<Rightarrow> remainingTime old | Some v \<Rightarrow> v),
       totalTime = (case sTotalTime s of None \<Rightarrow> totalTime old | Some v \<Rightarrow> v),
       isRunning = (case sIsRunning s of None \<Rightarrow> isRunning old | Some v \<Rightarrow> v),
       currentCycle = (case sCurrentCycle s of None \<Rightarrow> currentCycle old | Some v \<Rightarrow> v),
       sessionCount = (case sSessionCount s of None \<Rightarrow> sessionCount old | Some v \<Rightarrow> v) \<rparr>"

text \<open>What \<^verbatim>\<open>JSON.stringify\<close> writes for an object that has every property.\<close>

definition all_state_fields :: "timer_state \<Rightarrow> state_fields" where
  "all_state_fields s =
     \<lparr> sPhase = Some (phase s), sRemainingTime = Some (remainingTime s),
       sTotalTime = Some (totalTime s), sIsRunning = Some (isRunning s),
       sCurrentCycle = Some (currentCycle s), sSessionCount = Some (sessionCount s) \<rparr>"

definition all_config_fields :: "timer_config \<Rightarrow> config_fields" where
  "all_config_fields c =
     \<lparr> cFocusTime = Some (focusTime c), cShortBreakTime = Some (shortBreakTime c),
       cLongBreakTime = Some (longBreakTime c),
       cLongBreakInterval = Some (longBreakInterval c) \<rparr>"

section \<open>The methods of the class\<close>

text \<open>
  Each method takes the engine and returns it changed. Line numbers are those of
  \<^verbatim>\<open>TimerEngine.js\<close>. The class keeps one instance per page
  (\<^verbatim>\<open>TimerEngine.instance\<close>), so one value of type \<open>engine\<close> is the whole of it.

  \<^verbatim>\<open>emit\<close> (lines 60-62): listeners run outside the engine; the event is logged.
\<close>

definition emit :: "event \<Rightarrow> engine \<Rightarrow> engine" where
  "emit ev e = e\<lparr>effects := effects e @ [Emit ev]\<rparr>"

text \<open>\<^verbatim>\<open>saveState\<close> (lines 278-288): \<^verbatim>\<open>setItem\<close> may throw, which is caught and
  only warned about.\<close>

definition saveState :: "engine \<Rightarrow> engine" where
  "saveState e =
     (if storageWritable e
      then e\<lparr>storage := Parsed (Some (all_state_fields (state e)))
                                (Some (all_config_fields (config e)))\<rparr>
      else e)"

text \<open>\<^verbatim>\<open>validateConfig\<close> (lines 78-95): \<^verbatim>\<open>Math.max(lo, Math.min(hi, v))\<close> for each
  property that is not \<^verbatim>\<open>undefined\<close>.\<close>

definition validateConfig :: "config_fields \<Rightarrow> config_fields" where
  "validateConfig c =
     \<lparr> cFocusTime = map_option (\<lambda>v. max 1000 (min (24 * 60 * 60 * 1000) v)) (cFocusTime c),
       cShortBreakTime =
         map_option (\<lambda>v. max 1000 (min (24 * 60 * 60 * 1000) v)) (cShortBreakTime c),
       cLongBreakTime =
         map_option (\<lambda>v. max 1000 (min (24 * 60 * 60 * 1000) v)) (cLongBreakTime c),
       cLongBreakInterval = map_option (\<lambda>v. max 1 (min 10 v)) (cLongBreakInterval c) \<rparr>"

text \<open>\<^verbatim>\<open>resetToPhase\<close> (lines 238-255); \<open>phaseDuration\<close> is its \<^verbatim>\<open>switch\<close>.\<close>

definition phaseDuration :: "timer_config \<Rightarrow> phase \<Rightarrow> real" where
  "phaseDuration c p =
     (case p of Focus \<Rightarrow> focusTime c | ShortBreak \<Rightarrow> shortBreakTime c
              | LongBreak \<Rightarrow> longBreakTime c)"

definition resetToPhase :: "phase \<Rightarrow> engine \<Rightarrow> engine" where
  "resetToPhase p e =
     e\<lparr>state := (state e)\<lparr>phase := p, remainingTime := phaseDuration (config e) p,
                           totalTime := phaseDuration (config e) p\<rparr>\<rparr>"

text \<open>
  \<^verbatim>\<open>configure(newConfig)\<close> (lines 65-76). The only way it throws is the property read in
  \<^verbatim>\<open>validateConfig\<close> on an argument that is \<^verbatim>\<open>undefined\<close> or \<^verbatim>\<open>null\<close> (here
  \<open>None\<close>), before anything is assigned.
\<close>

definition configure :: "config_fields option \<Rightarrow> engine \<Rightarrow> js_error + engine" where
  "configure newConfig e =
     (case newConfig of
        None \<Rightarrow> Inl TypeError
      | Some c \<Rightarrow>
          (let e1 = e\<lparr>config := merge_config (config e) (validateConfig c)\<rparr>;
               e2 = (if \<not> isRunning (state e1) then resetToPhase (phase (state e1)) e1 else e1);
               e3 = saveState e2
           in Inr (emit (TimerConfigured (config e3)) e3)))"

text \<open>
  \<^verbatim>\<open>validateConfig\<close> and \<^verbatim>\<open>configure\<close> once more, for a caller that passes numbers
  which need not be finite. \<^verbatim>\<open>Math.min\<close> and \<^verbatim>\<open>Math.max\<close> return \<^verbatim>\<open>NaN\<close> when an
  argument is \<^verbatim>\<open>NaN\<close>, and order the infinities below and above every number.
\<close>

datatype jsnum = Num real | PosInfinity | NegInfinity | NaN

fun mathMin :: "jsnum \<Rightarrow> jsnum \<Rightarrow> jsnum" where
  "mathMin NaN b = NaN"
| "mathMin a NaN = NaN"
| "mathMin NegInfinity b = NegInfinity"
| "mathMin a NegInfinity = NegInfinity"
| "mathMin PosInfinity b = b"
| "mathMin a PosInfinity = a"
| "mathMin (Num x) (Num y) = Num (min x y)"

fun mathMax :: "jsnum \<Rightarrow> jsnum \<Rightarrow> jsnum" where
  "mathMax NaN b = NaN"
| "mathMax a NaN = NaN"
| "mathMax PosInfinity b = PosInfinity"
| "mathMax a PosInfinity = PosInfinity"
| "mathMax NegInfinity b = b"
| "mathMax a NegInfinity = a"
| "mathMax (Num x) (Num y) = Num (max x y)"

record js_config_fields =
  jFocusTime :: "jsnum option"
  jShortBreakTime :: "jsnum option"
  jLongBreakTime :: "jsnum option"
  jLongBreakInterval :: "jsnum option"

definition validateConfigJs :: "js_config_fields \<Rightarrow> js_config_fields" where
  "validateConfigJs c =
     \<lparr> jFocusTime =
         map_option (\<lambda>v. mathMax (Num 1000) (mathMin (Num (24 * 60 * 60 * 1000)) v))
           (jFocusTime c),
       jShortBreakTime =
         map_option (\<lambda>v. mathMax (Num 1000) (mathMin (Num (24 * 60 * 60 * 1000)) v))
           (jShortBreakTime c),
       jLongBreakTime =
         map_option (\<lambda>v. mathMax (Num 1000) (mathMin (Num (24 * 60 * 60 * 1000)) v))
           (jLongBreakTime c),
       jLongBreakInterval =
         map_option (\<lambda>v. mathMax (Num 1) (mathMin (Num 10) v)) (jLongBreakInterval c) \<rparr>"

text \<open>
  The configuration record holds finite numbers. \<open>finiteFields\<close> reads an object whose
  properties are all finite as such, and is \<open>None\<close> for any other object.
\<close>

definition numberOf :: "jsnum \<Rightarrow> real option" where
  "numberOf v = (case v of Num x \<Rightarrow> Some x | PosInfinity \<Rightarrow> None | NegInfinity \<Rightarrow> None
                 | NaN \<Rightarrow> None)"

definition finiteField :: "jsnum option \<Rightarrow> bool" where
  "finiteField f = (case f of None \<Rightarrow> True | Some v \<Rightarrow> numberOf v \<noteq> None)"

definition finiteFields :: "js_config_fields \<Rightarrow> config_fields option" where
  "finiteFields c =
     (if finiteField (jFocusTime c) \<and> finiteField (jShortBreakTime c) \<and>
         finiteField (jLongBreakTime c) \<and> finiteField (jLongBreakInterval c)
      then Some \<lparr> cFocusTime = Option.bind (jFocusTime c) numberOf,
                  cShortBreakTime = Option.bind (jShortBreakTime c) numberOf,
                  cLongBreakTime = Option.bind (jLongBreakTime c) numberOf,
                  cLongBreakInterval = Option.bind (jLongBreakInterval c) numberOf \<rparr>
      else None)"

text \<open>An object of finite numbers, as an object of JavaScript numbers.\<close>

definition jsFields :: "config_fields \<Rightarrow> js_config_fields" where
  "jsFields c =
     \<lparr> jFocusTime = map_option Num (cFocusTime c),
       jShortBreakTime = map_option Num (cShortBreakTime c),
       jLongBreakTime = map_option Num (cLongBreakTime c),
       jLongBreakInterval = map_option Num (cLongBreakInterval c) \<rparr>"

text \<open>
  \<^verbatim>\<open>configure(newConfig)\<close> (lines 65-76) on such an argument. The result is \<open>None\<close> when
  a validated property is not a finite number, which only \<^verbatim>\<open>NaN\<close> brings about: the
  configuration would then hold \<^verbatim>\<open>NaN\<close>, which the record cannot.
\<close>

definition configureJs ::
  "js_config_fields option \<Rightarrow> engine \<Rightarrow> (js_error + engine) option" where
  "configureJs newConfig e =
     (case newConfig of
        None \<Rightarrow> Some (Inl TypeError)
      | Some c \<Rightarrow>
          (case finiteFields (validateConfigJs c) of
             None \<Rightarrow> None
           | Some validatedConfig \<Rightarrow>
               (let e1 = e\<lparr>config := merge_config (config e) validatedConfig\<rparr>;
                    e2 = (if \<not> isRunning (state e1) then resetToPhase (phase (state e1)) e1
                          else e1);
                    e3 = saveState e2
                in Some (Inr (emit (TimerConfigured (config e3)) e3)))))"

text \<open>The browser registers a callback and returns a fresh request id.\<close>

definition requestAnimationFrame :: "engine \<Rightarrow> engine" where
  "requestAnimationFrame e =
     e\<lparr>rafId := Some (nextHandle e), nextHandle := nextHandle e + 1,
       effects := effects e @ [RequestFrame (nextHandle e)]\<rparr>"

definition setInterval :: "engine \<Rightarrow> engine" where
  "setInterval e =
     e\<lparr>intervalId := Some (nextHandle e), nextHandle := nextHandle e + 1,
       effects := effects e @ [SetInterval (nextHandle e)]\<rparr>"

text \<open>\<^verbatim>\<open>startPrecisionTimer\<close> (lines 142-186), the part that runs at once: both
  callbacks are registered. The callbacks themselves are \<open>tick\<close> and \<open>backupCheck\<close> below.\<close>

definition startPrecisionTimer :: "engine \<Rightarrow> engine" where
  "startPrecisionTimer e = setInterval (requestAnimationFrame e)"

text \<open>\<^verbatim>\<open>stopPrecisionTimer\<close> (lines 188-197). In \<^verbatim>\<open>if (this.rafId)\<close> and
  \<^verbatim>\<open>if (this.intervalId)\<close>, \<^verbatim>\<open>null\<close> and 0 are falsy.\<close>

definition stopPrecisionTimer :: "engine \<Rightarrow> engine" where
  "stopPrecisionTimer e =
     (let e1 = (case rafId e of
                  None \<Rightarrow> e
                | Some h \<Rightarrow>
                    if h \<noteq> 0 then e\<lparr>rafId := None, effects := effects e @ [CancelFrame h]\<rparr>
                    else e)
      in case intervalId e1 of
           None \<Rightarrow> e1
         | Some h \<Rightarrow>
             if h \<noteq> 0
             then e1\<lparr>intervalId := None, effects := effects e1 @ [ClearInterval h]\<rparr>
             else e1)"

text \<open>\<^verbatim>\<open>start()\<close> (lines 98-113); \<open>now\<close> is the value of \<^verbatim>\<open>performance.now()\<close>.\<close>

definition start :: "real \<Rightarrow> engine \<Rightarrow> engine" where
  "start now e =
     (if isRunning (state e) then e
      else
        (let e1 = e\<lparr>state := (state e)\<lparr>isRunning := True\<rparr>,
                     startTimestamp := Some now, lastTickTime := Some now\<rparr>;
             e2 = saveState (startPrecisionTimer e1)
         in emit (TimerStart (phase (state e2)) (totalTime (state e2))
                    (remainingTime (state e2))) e2))"

text \<open>\<^verbatim>\<open>pause()\<close> (lines 115-126) and \<^verbatim>\<open>reset()\<close> (lines 128-139).\<close>

definition pause :: "engine \<Rightarrow> engine" where
  "pause e =
     (if \<not> isRunning (state e) then e
      else
        (let e1 = saveState (stopPrecisionTimer (e\<lparr>state := (state e)\<lparr>isRunning := False\<rparr>\<rparr>))
         in emit (TimerPause (phase (state e1)) (remainingTime (state e1))) e1))"

definition reset :: "engine \<Rightarrow> engine" where
  "reset e =
     (let e1 = resetToPhase Focus (pause e);
          e2 = saveState (e1\<lparr>state := (state e1)\<lparr>currentCycle := 0, sessionCount := 0\<rparr>\<rparr>)
      in emit (TimerReset (phase (state e2)) (totalTime (state e2))) e2)"

text \<open>\<^verbatim>\<open>handlePhaseComplete()\<close> (lines 199-236).\<close>

definition handlePhaseComplete :: "engine \<Rightarrow> engine" where
  "handlePhaseComplete e =
     (let completedPhase = phase (state e);
          e1 = stopPrecisionTimer (e\<lparr>state := (state e)\<lparr>isRunning := False\<rparr>\<rparr>);
          e2 = (if completedPhase = Focus
                then
                  (let c = currentCycle (state e1) + 1
                   in e1\<lparr>state := (state e1)
                         \<lparr>currentCycle := c, sessionCount := sessionCount (state e1) + 1,
                          phase := (if js_rem c (longBreakInterval (config e1)) = Some 0
                                    then LongBreak else ShortBreak)\<rparr>\<rparr>)
                else e1\<lparr>state := (state e1)\<lparr>phase := Focus\<rparr>\<rparr>);
          e3 = saveState (resetToPhase (phase (state e2)) e2);
          e4 = emit (TimerComplete completedPhase (phase (state e3))
                       (currentCycle (state e3)) (sessionCount (state e3))) e3
      in emit (TimerPhaseChange completedPhase (phase (state e4))
                 (currentCycle (state e4))) e4)"

text \<open>
  The animation-frame callback \<^verbatim>\<open>tick\<close> (lines 144-169); \<open>currentTime\<close>
  is the timestamp the browser passes to it. The progress in the tick event is
  \<^verbatim>\<open>1 - remainingTime / totalTime\<close>, not finite when \<^verbatim>\<open>totalTime\<close> is 0.
\<close>

definition tick :: "real \<Rightarrow> engine \<Rightarrow> engine" where
  "tick currentTime e =
     (if \<not> isRunning (state e) then e
      else
        (let deltaTime = currentTime - toNumber (lastTickTime e);
             e1 = e\<lparr>lastTickTime := Some currentTime,
                     state := (state e)
                       \<lparr>remainingTime := max 0 (remainingTime (state e) - deltaTime)\<rparr>\<rparr>
         in if remainingTime (state e1) \<le> 0 then handlePhaseComplete e1
            else
              requestAnimationFrame
                (if \<lfloor>currentTime / 100\<rfloor> \<noteq> \<lfloor>(currentTime - deltaTime) / 100\<rfloor>
                 then emit (TimerTick (remainingTime (state e1)) (phase (state e1))
                              (if totalTime (state e1) = 0 then None
                               else Some (1 - remainingTime (state e1) / totalTime (state e1))))
                        e1
                 else e1)))"

text \<open>
  The \<^verbatim>\<open>setInterval\<close> callback (lines 174-185), run about once a second;
  \<open>now\<close> is the value of \<^verbatim>\<open>performance.now()\<close>.
\<close>

definition backupCheck :: "real \<Rightarrow> engine \<Rightarrow> engine" where
  "backupCheck now e =
     (if \<not> isRunning (state e) then e
      else
        (let actualElapsed = now - toNumber (startTimestamp e);
             expectedRemaining = totalTime (state e) - actualElapsed
         in if \<bar>remainingTime (state e) - expectedRemaining\<bar> > 100
            then e\<lparr>state := (state e)\<lparr>remainingTime := max 0 expectedRemaining\<rparr>\<rparr>
            else e))"

text \<open>The \<^verbatim>\<open>visibilitychange\<close> listener (lines 259-274), for each value of
  \<^verbatim>\<open>document.hidden\<close>; \<^verbatim>\<open>this.pausedDuration\<close> is falsy when it is 0.\<close>

definition visibilityHidden :: "real \<Rightarrow> engine \<Rightarrow> engine" where
  "visibilityHidden now e = e\<lparr>isTabVisible := False, pausedDuration := now\<rparr>"

definition visibilityVisible :: "real \<Rightarrow> engine \<Rightarrow> engine" where
  "visibilityVisible now e =
     (let e1 = e\<lparr>isTabVisible := True\<rparr>
      in if isRunning (state e1) \<and> pausedDuration e1 \<noteq> 0
         then e1\<lparr>startTimestamp :=
                   Some (toNumber (startTimestamp e1) + (now - pausedDuration e1))\<rparr>
         else e1)"

text \<open>
  \<^verbatim>\<open>loadState()\<close> (lines 290-305): every exception inside is caught and only warned about, so the
  fields keep the values they had.
\<close>

definition loadState :: "engine \<Rightarrow> engine" where
  "loadState e =
     (case storage e of
        NoItem \<Rightarrow> e
      | Unparsable \<Rightarrow> e
      | Parsed None cf \<Rightarrow> e
      | Parsed (Some st) cf \<Rightarrow>
          e\<lparr>state := merge_state (state e) (st\<lparr>sIsRunning := Some False\<rparr>),
            config := (case cf of None \<Rightarrow> config e | Some c \<Rightarrow> merge_config (config e) c)\<rparr>)"

text \<open>
  The constructor (lines 7-49), for a page whose storage holds \<open>item\<close>, whose tab is visible or not,
  and whose storage accepts writes or not.
\<close>

definition newTimerEngine :: "stored \<Rightarrow> bool \<Rightarrow> bool \<Rightarrow> engine" where
  "newTimerEngine item visible writable =
     loadState
       \<lparr> state = \<lparr> phase = Focus, remainingTime = 25 * 60 * 1000, totalTime = 25 * 60 * 1000,
                   isRunning = False, currentCycle = 0, sessionCount = 0 \<rparr>,
         config = \<lparr> focusTime = 25 * 60 * 1000, shortBreakTime = 5 * 60 * 1000,
                    longBreakTime = 15 * 60 * 1000, longBreakInterval = 4 \<rparr>,
         startTimestamp = None, pausedDuration = 0, rafId = None, intervalId = None,
         lastTickTime = None, isTabVisible = visible, nextHandle = 1, storage = item,
         storageWritable = writable, effects = [] \<rparr>"

text \<open>The methods the class body declares; calling any other name on an instance is a
  \<^verbatim>\<open>TypeError\<close>.\<close>

definition TimerEngine_methods :: "string list" where
  "TimerEngine_methods =
     [''on'', ''off'', ''emit'', ''configure'', ''validateConfig'', ''start'', ''pause'',
      ''reset'', ''startPrecisionTimer'', ''stopPrecisionTimer'', ''handlePhaseComplete'',
      ''resetToPhase'', ''bindVisibilityEvents'', ''saveState'', ''loadState'', ''getState'',
      ''getConfig'', ''getPhaseLabel'', ''formatTime'', ''destroy'']"

section \<open>Runs of the engine\<close>

text \<open>
  The calls the user interface makes and the two callbacks the browser runs, with the
  clock reading each of them sees. \<^verbatim>\<open>configure\<close> is called with an object, so it
  returns normally; were it to throw, the engine would be as before the call.
\<close>

datatype op =
    Configure config_fields
  | Start real
  | Pause
  | Reset
  | Tick real
  | BackupCheck real

fun exec :: "op \<Rightarrow> engine \<Rightarrow> engine" where
  "exec (Configure c) e = (case configure (Some c) e of Inl err \<Rightarrow> e | Inr e' \<Rightarrow> e')"
| "exec (Start now) e = start now e"
| "exec Pause e = pause e"
| "exec Reset e = reset e"
| "exec (Tick currentTime) e = tick currentTime e"
| "exec (BackupCheck now) e = backupCheck now e"

fun run :: "op list \<Rightarrow> engine \<Rightarrow> engine" where
  "run [] e = e"
| "run (x # xs) e = run xs (exec x e)"

fun clockReading :: "op \<Rightarrow> real option" where
  "clockReading (Start now) = Some now"
| "clockReading (Tick currentTime) = Some currentTime"
| "clockReading (BackupCheck now) = Some now"
| "clockReading x = None"

text \<open>The clock readings of a run never go back, starting from the reading \<open>t\<close>.\<close>

fun timely :: "real \<Rightarrow> op list \<Rightarrow> bool" where
  "timely t [] = True"
| "timely t (x # xs) =
     (case clockReading x of None \<Rightarrow> timely t xs | Some u \<Rightarrow> t \<le> u \<and> timely u xs)"

fun isStart :: "op \<Rightarrow> bool" where
  "isStart (Start now) = True"
| "isStart x = False"

section \<open>Properties to be checked\<close>

text \<open>The ranges of the configuration: one second to 24 hours, and 1 to 10 cycles.\<close>

definition validConfig :: "timer_config \<Rightarrow> bool" where
  "validConfig c =
     (1000 \<le> focusTime c \<and> focusTime c \<le> 86400000 \<and>
      1000 \<le> shortBreakTime c \<and> shortBreakTime c \<le> 86400000 \<and>
      1000 \<le> longBreakTime c \<and> longBreakTime c \<le> 86400000 \<and>
      1 \<le> longBreakInterval c \<and> longBreakInterval c \<le> 10)"

definition withinBounds :: "engine \<Rightarrow> bool" where
  "withinBounds e =
     (0 \<le> remainingTime (state e) \<and> remainingTime (state e) \<le> totalTime (state e))"

text \<open>While the engine runs, the timestamps it holds are not later than the clock reading \<open>t\<close>.\<close>

definition anchored :: "real \<Rightarrow> engine \<Rightarrow> bool" where
  "anchored t e =
     (isRunning (state e) \<longrightarrow>
        toNumber (startTimestamp e) \<le> t \<and> toNumber (lastTickTime e) \<le> t)"

text \<open>Clamping as the specification words it: below the minimum, above the maximum, or kept.\<close>

definition clampedTo :: "real \<Rightarrow> real \<Rightarrow> real \<Rightarrow> real" where
  "clampedTo lo hi v = (if v < lo then lo else if hi < v then hi else v)"

text \<open>The same for a number that need not be finite; \<open>None\<close> for \<^verbatim>\<open>NaN\<close>.\<close>

definition clampedJs :: "real \<Rightarrow> real \<Rightarrow> jsnum \<Rightarrow> real option" where
  "clampedJs lo hi v =
     (case v of Num x \<Rightarrow> Some (clampedTo lo hi x) | PosInfinity \<Rightarrow> Some hi
      | NegInfinity \<Rightarrow> Some lo | NaN \<Rightarrow> None)"

section \<open>Fields that each method leaves alone\<close>

lemma emit_fields [simp]:
  "state (emit ev e) = state e" "config (emit ev e) = config e"
  "startTimestamp (emit ev e) = startTimestamp e" "lastTickTime (emit ev e) = lastTickTime e"
  "rafId (emit ev e) = rafId e" "intervalId (emit ev e) = intervalId e"
  "storage (emit ev e) = storage e" "storageWritable (emit ev e) = storageWritable e"
  "nextHandle (emit ev e) = nextHandle e" "effects (emit ev e) = effects e @ [Emit ev]"
  by (simp_all add: emit_def)

lemma saveState_fields [simp]:
  "state (saveState e) = state e" "config (saveState e) = config e"
  "startTimestamp (saveState e) = startTimestamp e" "lastTickTime (saveState e) = lastTickTime e"
  "rafId (saveState e) = rafId e" "intervalId (saveState e) = intervalId e"
  "storageWritable (saveState e) = storageWritable e"
  "nextHandle (saveState e) = nextHandle e" "effects (saveState e) = effects e"
  by (simp_all add: saveState_def)

lemma stopPrecisionTimer_fields [simp]:
  "state (stopPrecisionTimer e) = state e" "config (stopPrecisionTimer e) = config e"
  "startTimestamp (stopPrecisionTimer e) = startTimestamp e"
  "lastTickTime (stopPrecisionTimer e) = lastTickTime e"
  "storage (stopPrecisionTimer e) = storage e"
  "storageWritable (stopPrecisionTimer e) = storageWritable e"
  "nextHandle (stopPrecisionTimer e) = nextHandle e"
  by (simp_all add: stopPrecisionTimer_def Let_def split: option.splits)

lemma startPrecisionTimer_fields [simp]:
  "state (startPrecisionTimer e) = state e" "config (startPrecisionTimer e) = config e"
  "startTimestamp (startPrecisionTimer e) = startTimestamp e"
  "lastTickTime (startPrecisionTimer e) = lastTickTime e"
  "storage (startPrecisionTimer e) = storage e"
  "storageWritable (startPrecisionTimer e) = storageWritable e"
  "rafId (startPrecisionTimer e) = Some (nextHandle e)"
  "intervalId (startPrecisionTimer e) = Some (nextHandle e + 1)"
  "nextHandle (startPrecisionTimer e) = nextHandle e + 2"
  "effects (startPrecisionTimer e) =
     effects e @ [RequestFrame (nextHandle e), SetInterval (nextHandle e + 1)]"
  by (simp_all add: startPrecisionTimer_def requestAnimationFrame_def setInterval_def)

lemma requestAnimationFrame_fields [simp]:
  "state (requestAnimationFrame e) = state e" "config (requestAnimationFrame e) = config e"
  "startTimestamp (requestAnimationFrame e) = startTimestamp e"
  "lastTickTime (requestAnimationFrame e) = lastTickTime e"
  "intervalId (requestAnimationFrame e) = intervalId e"
  "rafId (requestAnimationFrame e) = Some (nextHandle e)"
  by (simp_all add: requestAnimationFrame_def)

lemma resetToPhase_fields [simp]:
  "config (resetToPhase p e) = config e"
  "startTimestamp (resetToPhase p e) = startTimestamp e"
  "lastTickTime (resetToPhase p e) = lastTickTime e"
  "rafId (resetToPhase p e) = rafId e" "intervalId (resetToPhase p e) = intervalId e"
  "effects (resetToPhase p e) = effects e"
  "phase (state (resetToPhase p e)) = p"
  "remainingTime (state (resetToPhase p e)) = phaseDuration (config e) p"
  "totalTime (state (resetToPhase p e)) = phaseDuration (config e) p"
  "isRunning (state (resetToPhase p e)) = isRunning (state e)"
  "currentCycle (state (resetToPhase p e)) = currentCycle (state e)"
  "sessionCount (state (resetToPhase p e)) = sessionCount (state e)"
  by (simp_all add: resetToPhase_def)


section \<open>What each method does to the clock state\<close>

lemma state_start:
  "state (start now e) = (if isRunning (state e) then state e else (state e)\<lparr>isRunning := True\<rparr>)"
  by (simp add: start_def Let_def)

lemma clock_start:
  "\<not> isRunning (state e) \<Longrightarrow> startTimestamp (start now e) = Some now"
  "\<not> isRunning (state e) \<Longrightarrow> lastTickTime (start now e) = Some now"
  "isRunning (state e) \<Longrightarrow> start now e = e"
  "config (start now e) = config e"
  by (simp_all add: start_def Let_def)

lemma state_pause: "state (pause e) = (state e)\<lparr>isRunning := False\<rparr>"
  by (cases "state e") (simp add: pause_def Let_def)

lemma clock_pause:
  "startTimestamp (pause e) = startTimestamp e" "lastTickTime (pause e) = lastTickTime e"
  "config (pause e) = config e"
  by (simp_all add: pause_def Let_def)

lemma state_reset:
  "state (reset e) =
     (state e)\<lparr>phase := Focus, remainingTime := focusTime (config e),
               totalTime := focusTime (config e), isRunning := False,
               currentCycle := 0, sessionCount := 0\<rparr>"
  by (cases "state e") (simp add: reset_def Let_def resetToPhase_def state_pause clock_pause phaseDuration_def)

lemma clock_reset:
  "startTimestamp (reset e) = startTimestamp e" "lastTickTime (reset e) = lastTickTime e"
  "config (reset e) = config e"
  by (simp_all add: reset_def Let_def clock_pause)

lemma state_handlePhaseComplete:
  "state (handlePhaseComplete e) =
     (let p = (if phase (state e) = Focus
               then if js_rem (currentCycle (state e) + 1) (longBreakInterval (config e)) = Some 0
                    then LongBreak else ShortBreak
               else Focus)
      in \<lparr> phase = p, remainingTime = phaseDuration (config e) p,
           totalTime = phaseDuration (config e) p, isRunning = False,
           currentCycle = (if phase (state e) = Focus then currentCycle (state e) + 1
                           else currentCycle (state e)),
           sessionCount = (if phase (state e) = Focus then sessionCount (state e) + 1
                           else sessionCount (state e)) \<rparr>)"
  by (cases "state e") (simp add: handlePhaseComplete_def Let_def resetToPhase_def)

lemma clock_handlePhaseComplete:
  "startTimestamp (handlePhaseComplete e) = startTimestamp e"
  "lastTickTime (handlePhaseComplete e) = lastTickTime e"
  "config (handlePhaseComplete e) = config e"
  by (simp_all add: handlePhaseComplete_def Let_def)

lemma state_backupCheck:
  "state (backupCheck now e) =
     (if isRunning (state e) \<and>
         \<bar>remainingTime (state e) - (totalTime (state e) - (now - toNumber (startTimestamp e)))\<bar> > 100
      then (state e)\<lparr>remainingTime := max 0 (totalTime (state e) - (now - toNumber (startTimestamp e)))\<rparr>
      else state e)"
  by (simp add: backupCheck_def Let_def)

lemma clock_backupCheck:
  "startTimestamp (backupCheck now e) = startTimestamp e"
  "lastTickTime (backupCheck now e) = lastTickTime e"
  "config (backupCheck now e) = config e"
  by (simp_all add: backupCheck_def Let_def)

lemma tick_stopped: "\<not> isRunning (state e) \<Longrightarrow> tick t e = e"
  by (simp add: tick_def)

lemma backupCheck_stopped: "\<not> isRunning (state e) \<Longrightarrow> backupCheck t e = e"
  by (simp add: backupCheck_def)

lemma tick_completes:
  "isRunning (state e) \<Longrightarrow> remainingTime (state e) - (t - toNumber (lastTickTime e)) \<le> 0 \<Longrightarrow>
   tick t e = handlePhaseComplete
     (e\<lparr>lastTickTime := Some t, state := (state e)\<lparr>remainingTime := 0\<rparr>\<rparr>)"
  by (simp add: tick_def Let_def max_def)

lemma state_tick_continues:
  "isRunning (state e) \<Longrightarrow> 0 < remainingTime (state e) - (t - toNumber (lastTickTime e)) \<Longrightarrow>
   state (tick t e) =
     (state e)\<lparr>remainingTime := remainingTime (state e) - (t - toNumber (lastTickTime e))\<rparr>"
  by (simp add: tick_def Let_def max_def)

lemma clock_tick:
  "isRunning (state e) \<Longrightarrow> lastTickTime (tick t e) = Some t"
  "startTimestamp (tick t e) = startTimestamp e"
  "config (tick t e) = config e"
  by (simp_all add: tick_def Let_def clock_handlePhaseComplete)

lemma validateConfig_clamps:
  "cFocusTime (validateConfig c) = map_option (clampedTo 1000 86400000) (cFocusTime c)"
  "cShortBreakTime (validateConfig c) = map_option (clampedTo 1000 86400000) (cShortBreakTime c)"
  "cLongBreakTime (validateConfig c) = map_option (clampedTo 1000 86400000) (cLongBreakTime c)"
  "cLongBreakInterval (validateConfig c) = map_option (clampedTo 1 10) (cLongBreakInterval c)"
  by (cases "cFocusTime c"; cases "cShortBreakTime c"; cases "cLongBreakTime c";
      cases "cLongBreakInterval c"; simp add: validateConfig_def clampedTo_def max_def min_def)+

lemma config_configure:
  "config (projr (configure (Some c) e)) = merge_config (config e) (validateConfig c)"
  by (simp add: configure_def Let_def)

lemma configure_succeeds: "\<not> isl (configure (Some c) e)"
  by (simp add: configure_def Let_def)

lemma state_configure:
  "state (projr (configure (Some c) e)) =
     (if isRunning (state e) then state e
      else (state e)\<lparr>remainingTime :=
                        phaseDuration (merge_config (config e) (validateConfig c)) (phase (state e)),
                      totalTime :=
                        phaseDuration (merge_config (config e) (validateConfig c)) (phase (state e))\<rparr>)"
  by (cases "state e") (simp add: configure_def Let_def resetToPhase_def)

lemma clock_configure:
  "startTimestamp (projr (configure (Some c) e)) = startTimestamp e"
  "lastTickTime (projr (configure (Some c) e)) = lastTickTime e"
  by (simp_all add: configure_def Let_def)

section \<open>Configuration: clamping\<close>

text \<open>
  Claim C9. A call of \<^verbatim>\<open>configure\<close> with an object whose properties are finite numbers
  raises nothing. Every duration it provides is stored clamped into \<open>[1000, 86400000]\<close>
  and the long-break interval into \<open>[1, 10]\<close>: a value below the minimum becomes the
  minimum, a value above the maximum becomes the maximum. A property that is not provided
  keeps the value it had.
\<close>

theorem configure_clamps_each_field:
  "\<exists>e'. configure (Some c) e = Inr e' \<and>
     focusTime (config e') =
       (case cFocusTime c of None \<Rightarrow> focusTime (config e)
        | Some v \<Rightarrow> clampedTo 1000 86400000 v) \<and>
     shortBreakTime (config e') =
       (case cShortBreakTime c of None \<Rightarrow> shortBreakTime (config e)
        | Some v \<Rightarrow> clampedTo 1000 86400000 v) \<and>
     longBreakTime (config e') =
       (case cLongBreakTime c of None \<Rightarrow> longBreakTime (config e)
        | Some v \<Rightarrow> clampedTo 1000 86400000 v) \<and>
     longBreakInterval (config e') =
       (case cLongBreakInterval c of None \<Rightarrow> longBreakInterval (config e)
        | Some v \<Rightarrow> clampedTo 1 10 v) \<and>
     (cFocusTime c \<noteq> None \<longrightarrow> 1000 \<le> focusTime (config e') \<and> focusTime (config e') \<le> 86400000) \<and>
     (cShortBreakTime c \<noteq> None \<longrightarrow>
        1000 \<le> shortBreakTime (config e') \<and> shortBreakTime (config e') \<le> 86400000) \<and>
     (cLongBreakTime c \<noteq> None \<longrightarrow>
        1000 \<le> longBreakTime (config e') \<and> longBreakTime (config e') \<le> 86400000) \<and>
     (cLongBreakInterval c \<noteq> None \<longrightarrow>
        1 \<le> longBreakInterval (config e') \<and> longBreakInterval (config e') \<le> 10)"
proof -
  have ok: "configure (Some c) e = Inr (projr (configure (Some c) e))"
    using configure_succeeds [of c e] by (cases "configure (Some c) e") simp_all
  have cfg: "config (projr (configure (Some c) e)) = merge_config (config e) (validateConfig c)"
    by (rule config_configure)
  have rng: "1000 \<le> clampedTo 1000 86400000 v \<and> clampedTo 1000 86400000 v \<le> 86400000"
            "1 \<le> clampedTo 1 10 v \<and> clampedTo 1 10 v \<le> 10" for v
    by (simp_all add: clampedTo_def)
  show ?thesis
    using ok rng
    by (intro exI [of _ "projr (configure (Some c) e)"])
       (auto simp add: cfg merge_config_def validateConfig_clamps split: option.splits)
qed

theorem configure_clamps_each_field_witness:
  "\<exists>e'. configure (Some \<lparr> cFocusTime = Some 500, cShortBreakTime = None,
                            cLongBreakTime = Some 90000000, cLongBreakInterval = Some 12 \<rparr>)
            (newTimerEngine NoItem True True) = Inr e' \<and>
        focusTime (config e') = 1000 \<and> shortBreakTime (config e') = 300000 \<and>
        longBreakTime (config e') = 86400000 \<and> longBreakInterval (config e') = 10"
  using configure_clamps_each_field
          [of "\<lparr> cFocusTime = Some 500, cShortBreakTime = None,
                  cLongBreakTime = Some 90000000, cLongBreakInterval = Some 12 \<rparr>"
              "newTimerEngine NoItem True True"]
  by (auto simp add: clampedTo_def newTimerEngine_def loadState_def)

section \<open>Configuration: out-of-range values\<close>

text \<open>
  Claim C3 says that a call of \<^verbatim>\<open>configure\<close> with an invalid field fails with a
  \<^verbatim>\<open>ConfigurationError\<close> and changes nothing, in particular for a focus duration of
  0 or of 86400001. The code clamps instead: both calls return normally, the stored focus
  duration is 1000 and 86400000, and the stopped engine's remaining time follows.
\<close>

theorem configure_out_of_range_counterexample:
  "\<not> isl (configure (Some \<lparr> cFocusTime = Some 0, cShortBreakTime = None,
                               cLongBreakTime = None, cLongBreakInterval = None \<rparr>)
              (newTimerEngine NoItem True True)) \<and>
   focusTime (config (projr (configure (Some \<lparr> cFocusTime = Some 0, cShortBreakTime = None,
                               cLongBreakTime = None, cLongBreakInterval = None \<rparr>)
              (newTimerEngine NoItem True True)))) = 1000 \<and>
   remainingTime (state (projr (configure (Some \<lparr> cFocusTime = Some 0, cShortBreakTime = None,
                               cLongBreakTime = None, cLongBreakInterval = None \<rparr>)
              (newTimerEngine NoItem True True)))) = 1000 \<and>
   remainingTime (state (newTimerEngine NoItem True True)) = 1500000 \<and>
   \<not> isl (configure (Some \<lparr> cFocusTime = Some 86400001, cShortBreakTime = None,
                               cLongBreakTime = None, cLongBreakInterval = None \<rparr>)
              (newTimerEngine NoItem True True)) \<and>
   focusTime (config (projr (configure (Some \<lparr> cFocusTime = Some 86400001,
                               cShortBreakTime = None, cLongBreakTime = None,
                               cLongBreakInterval = None \<rparr>)
              (newTimerEngine NoItem True True)))) = 86400000"
  by (simp add: config_configure state_configure configure_succeeds merge_config_def
        validateConfig_clamps clampedTo_def phaseDuration_def newTimerEngine_def loadState_def)

lemma validConfig_merge:
  "validConfig old \<Longrightarrow> validConfig (merge_config old (validateConfig c))"
  by (auto simp add: validConfig_def merge_config_def validateConfig_clamps clampedTo_def
           split: option.splits)

lemma validated_field:
  assumes "lo \<le> hi" and "f \<noteq> Some NaN"
  shows "finiteField (map_option (\<lambda>v. mathMax (Num lo) (mathMin (Num hi) v)) f)"
    and "Option.bind (map_option (\<lambda>v. mathMax (Num lo) (mathMin (Num hi) v)) f) numberOf
           = Option.bind f (clampedJs lo hi)"
proof -
  show "finiteField (map_option (\<lambda>v. mathMax (Num lo) (mathMin (Num hi) v)) f)"
  proof (cases f)
    case None
    then show ?thesis by (simp add: finiteField_def)
  next
    case (Some v)
    with assms(2) show ?thesis
      by (cases v) (simp_all add: finiteField_def numberOf_def)
  qed
  show "Option.bind (map_option (\<lambda>v. mathMax (Num lo) (mathMin (Num hi) v)) f) numberOf
           = Option.bind f (clampedJs lo hi)"
  proof (cases f)
    case None
    then show ?thesis by simp
  next
    case (Some v)
    with assms show ?thesis
      by (cases v) (auto simp add: numberOf_def clampedJs_def clampedTo_def max_def min_def)
  qed
qed

lemma finiteFields_validateConfigJs:
  assumes "jFocusTime c \<noteq> Some NaN" and "jShortBreakTime c \<noteq> Some NaN"
    and "jLongBreakTime c \<noteq> Some NaN" and "jLongBreakInterval c \<noteq> Some NaN"
  shows "finiteFields (validateConfigJs c) =
     Some \<lparr> cFocusTime = Option.bind (jFocusTime c) (clampedJs 1000 86400000),
            cShortBreakTime = Option.bind (jShortBreakTime c) (clampedJs 1000 86400000),
            cLongBreakTime = Option.bind (jLongBreakTime c) (clampedJs 1000 86400000),
            cLongBreakInterval = Option.bind (jLongBreakInterval c) (clampedJs 1 10) \<rparr>"
proof -
  have d: "(1000::real) \<le> 24 * 60 * 60 * 1000" "(1::real) \<le> 10" by simp_all
  show ?thesis
    unfolding finiteFields_def validateConfigJs_def
    using validated_field [OF d(1) assms(1)] validated_field [OF d(1) assms(2)]
          validated_field [OF d(1) assms(3)] validated_field [OF d(2) assms(4)]
    by simp
qed

lemma clampedJs_range:
  "lo \<le> hi \<Longrightarrow> clampedJs lo hi v = Some x \<Longrightarrow> lo \<le> x \<and> x \<le> hi"
  by (cases v) (auto simp add: clampedJs_def clampedTo_def split: if_splits)

lemma bounded_field:
  assumes "lo \<le> hi" and "lo \<le> x" and "x \<le> hi"
  shows "lo \<le> (case Option.bind f (clampedJs lo hi) of None \<Rightarrow> x | Some y \<Rightarrow> y) \<and>
         (case Option.bind f (clampedJs lo hi) of None \<Rightarrow> x | Some y \<Rightarrow> y) \<le> hi"
proof (cases "Option.bind f (clampedJs lo hi)")
  case None
  with assms show ?thesis by simp
next
  case (Some y)
  then obtain v where "clampedJs lo hi v = Some y"
    by (cases f) simp_all
  from clampedJs_range [OF assms(1) this] Some show ?thesis by simp
qed

lemma validConfig_merge_clamped:
  assumes "validConfig old"
  shows "validConfig (merge_config old
     \<lparr> cFocusTime = Option.bind a (clampedJs 1000 86400000),
       cShortBreakTime = Option.bind b (clampedJs 1000 86400000),
       cLongBreakTime = Option.bind c (clampedJs 1000 86400000),
       cLongBreakInterval = Option.bind d (clampedJs 1 10) \<rparr>)"
proof -
  have o: "1000 \<le> focusTime old" "focusTime old \<le> 86400000"
    "1000 \<le> shortBreakTime old" "shortBreakTime old \<le> 86400000"
    "1000 \<le> longBreakTime old" "longBreakTime old \<le> 86400000"
    "1 \<le> longBreakInterval old" "longBreakInterval old \<le> 10"
    using assms by (simp_all add: validConfig_def)
  have d: "(1000::real) \<le> 86400000" "(1::real) \<le> 10" by simp_all
  note f = bounded_field [OF d(1) o(1,2), of a] bounded_field [OF d(1) o(3,4), of b]
    bounded_field [OF d(1) o(5,6), of c] bounded_field [OF d(2) o(7,8), of d]
  show ?thesis
    unfolding validConfig_def merge_config_def timer_config.simps config_fields.simps
    using f by blast
qed

lemma configureJs_finite: "configureJs (Some (jsFields c)) e = Some (configure (Some c) e)"
proof -
  have f: "finiteFields (validateConfigJs (jsFields c)) = Some (validateConfig c)"
    by (cases "cFocusTime c"; cases "cShortBreakTime c"; cases "cLongBreakTime c";
        cases "cLongBreakInterval c")
       (simp_all add: finiteFields_def validateConfigJs_def jsFields_def validateConfig_def
          finiteField_def numberOf_def)
  show ?thesis
    by (simp add: configureJs_def configure_def f Let_def)
qed

lemma merged_field:
  assumes "f \<noteq> Some NaN"
  shows "case f of
           None \<Rightarrow> (case Option.bind f (clampedJs lo hi) of None \<Rightarrow> old | Some y \<Rightarrow> y) = old
         | Some v \<Rightarrow>
             Some (case Option.bind f (clampedJs lo hi) of None \<Rightarrow> old | Some y \<Rightarrow> y)
               = clampedJs lo hi v"
proof (cases f)
  case None
  then show ?thesis by simp
next
  case (Some v)
  with assms show ?thesis by (cases v) (simp_all add: clampedJs_def)
qed

text \<open>
  Claim C3, as the code has it. A call of \<^verbatim>\<open>configure\<close> with an object whose
  provided properties are numbers other than \<^verbatim>\<open>NaN\<close>, finite or infinite, is never
  rejected: it returns normally. Each property it provides is stored clamped into its
  range, \<open>[1000, 86400000]\<close> for the three durations and \<open>[1, 10]\<close> for the long-break
  interval, a value below the minimum and \<^verbatim>\<open>-Infinity\<close> as the minimum, a value above
  the maximum and \<^verbatim>\<open>Infinity\<close> as the maximum; a property it does not provide keeps
  its value. A configuration that was within its ranges stays within them. The current
  phase takes the configured duration at once when the engine is stopped, while a running
  engine keeps its clock state, and one event carries the resulting configuration. On
  finite numbers this is the result of \<open>configure\<close> above.
\<close>

theorem configure_never_rejects:
  assumes "jFocusTime c \<noteq> Some NaN" and "jShortBreakTime c \<noteq> Some NaN"
    and "jLongBreakTime c \<noteq> Some NaN" and "jLongBreakInterval c \<noteq> Some NaN"
  shows "\<exists>e'. configureJs (Some c) e = Some (Inr e') \<and>
     (case jFocusTime c of None \<Rightarrow> focusTime (config e') = focusTime (config e)
      | Some v \<Rightarrow> Some (focusTime (config e')) = clampedJs 1000 86400000 v) \<and>
     (case jShortBreakTime c of None \<Rightarrow> shortBreakTime (config e') = shortBreakTime (config e)
      | Some v \<Rightarrow> Some (shortBreakTime (config e')) = clampedJs 1000 86400000 v) \<and>
     (case jLongBreakTime c of None \<Rightarrow> longBreakTime (config e') = longBreakTime (config e)
      | Some v \<Rightarrow> Some (longBreakTime (config e')) = clampedJs 1000 86400000 v) \<and>
     (case jLongBreakInterval c of
        None \<Rightarrow> longBreakInterval (config e') = longBreakInterval (config e)
      | Some v \<Rightarrow> Some (longBreakInterval (config e')) = clampedJs 1 10 v) \<and>
     (validConfig (config e) \<longrightarrow> validConfig (config e')) \<and>
     (\<not> isRunning (state e) \<longrightarrow>
        state e' = (state e)\<lparr>remainingTime := phaseDuration (config e') (phase (state e)),
                              totalTime := phaseDuration (config e') (phase (state e))\<rparr>) \<and>
     (isRunning (state e) \<longrightarrow> state e' = state e) \<and>
     effects e' = effects e @ [Emit (TimerConfigured (config e'))] \<and>
     (\<forall>c0. c = jsFields c0 \<longrightarrow> configure (Some c0) e = Inr e')"
proof -
  let ?v = "\<lparr> cFocusTime = Option.bind (jFocusTime c) (clampedJs 1000 86400000),
            cShortBreakTime = Option.bind (jShortBreakTime c) (clampedJs 1000 86400000),
            cLongBreakTime = Option.bind (jLongBreakTime c) (clampedJs 1000 86400000),
            cLongBreakInterval = Option.bind (jLongBreakInterval c) (clampedJs 1 10) \<rparr>"
  let ?e1 = "e\<lparr>config := merge_config (config e) ?v\<rparr>"
  let ?e2 = "if \<not> isRunning (state ?e1) then resetToPhase (phase (state ?e1)) ?e1 else ?e1"
  let ?e' = "emit (TimerConfigured (config (saveState ?e2))) (saveState ?e2)"
  have ok: "configureJs (Some c) e = Some (Inr ?e')"
    by (simp add: configureJs_def finiteFields_validateConfigJs [OF assms] Let_def)
  have cfg: "config ?e' = merge_config (config e) ?v"
    by simp
  have f1: "case jFocusTime c of None \<Rightarrow> focusTime (config ?e') = focusTime (config e)
      | Some v \<Rightarrow> Some (focusTime (config ?e')) = clampedJs 1000 86400000 v"
    unfolding cfg using merged_field [OF assms(1), where lo = 1000 and hi = 86400000
        and old = "focusTime (config e)"]
    by (cases "jFocusTime c") (simp_all add: merge_config_def)
  have f2: "case jShortBreakTime c of None \<Rightarrow> shortBreakTime (config ?e') = shortBreakTime (config e)
      | Some v \<Rightarrow> Some (shortBreakTime (config ?e')) = clampedJs 1000 86400000 v"
    unfolding cfg using merged_field [OF assms(2), where lo = 1000 and hi = 86400000
        and old = "shortBreakTime (config e)"]
    by (cases "jShortBreakTime c") (simp_all add: merge_config_def)
  have f3: "case jLongBreakTime c of None \<Rightarrow> longBreakTime (config ?e') = longBreakTime (config e)
      | Some v \<Rightarrow> Some (longBreakTime (config ?e')) = clampedJs 1000 86400000 v"
    unfolding cfg using merged_field [OF assms(3), where lo = 1000 and hi = 86400000
        and old = "longBreakTime (config e)"]
    by (cases "jLongBreakTime c") (simp_all add: merge_config_def)
  have f4: "case jLongBreakInterval c of
        None \<Rightarrow> longBreakInterval (config ?e') = longBreakInterval (config e)
      | Some v \<Rightarrow> Some (longBreakInterval (config ?e')) = clampedJs 1 10 v"
    unfolding cfg using merged_field [OF assms(4), where lo = 1 and hi = 10
        and old = "longBreakInterval (config e)"]
    by (cases "jLongBreakInterval c") (simp_all add: merge_config_def)
  have v: "validConfig (config e) \<longrightarrow> validConfig (config ?e')"
    unfolding cfg by (simp add: validConfig_merge_clamped)
  have s1: "\<not> isRunning (state e) \<longrightarrow>
        state ?e' = (state e)\<lparr>remainingTime := phaseDuration (config ?e') (phase (state e)),
                              totalTime := phaseDuration (config ?e') (phase (state e))\<rparr>"
    unfolding cfg by (cases "state e") (simp add: resetToPhase_def)
  have s2: "isRunning (state e) \<longrightarrow> state ?e' = state e"
    by simp
  have ef: "effects ?e' = effects e @ [Emit (TimerConfigured (config ?e'))]"
    by simp
  have fin: "\<forall>c0. c = jsFields c0 \<longrightarrow> configure (Some c0) e = Inr ?e'"
    using ok configureJs_finite [of _ e] by auto
  from ok f1 f2 f3 f4 v s1 s2 ef fin show ?thesis by blast
qed

theorem configure_never_rejects_witness:
  "jFocusTime \<lparr> jFocusTime = Some (Num 0), jShortBreakTime = Some PosInfinity,
                jLongBreakTime = Some NegInfinity, jLongBreakInterval = None \<rparr> \<noteq> Some NaN \<and>
   (\<exists>e'. configureJs (Some \<lparr> jFocusTime = Some (Num 0), jShortBreakTime = Some PosInfinity,
                              jLongBreakTime = Some NegInfinity, jLongBreakInterval = None \<rparr>)
            (newTimerEngine NoItem True True) = Some (Inr e') \<and>
     focusTime (config e') = 1000 \<and> shortBreakTime (config e') = 86400000 \<and>
     longBreakTime (config e') = 1000 \<and> longBreakInterval (config e') = 4 \<and>
     validConfig (config (newTimerEngine NoItem True True)) \<and> validConfig (config e') \<and>
     \<not> isRunning (state (newTimerEngine NoItem True True)) \<and>
     remainingTime (state e') = 1000 \<and> totalTime (state e') = 1000)"
proof -
  let ?c = "\<lparr> jFocusTime = Some (Num 0), jShortBreakTime = Some PosInfinity,
                jLongBreakTime = Some NegInfinity, jLongBreakInterval = None \<rparr>"
  let ?e = "newTimerEngine NoItem True True"
  have n: "jFocusTime ?c \<noteq> Some NaN" "jShortBreakTime ?c \<noteq> Some NaN"
    "jLongBreakTime ?c \<noteq> Some NaN" "jLongBreakInterval ?c \<noteq> Some NaN"
    by simp_all
  have v: "validConfig (config ?e)"
    by (simp add: validConfig_def newTimerEngine_def loadState_def)
  have s: "\<not> isRunning (state ?e)" "phase (state ?e) = Focus"
          "longBreakInterval (config ?e) = 4"
    by (simp_all add: newTimerEngine_def loadState_def)
  obtain e' where e': "configureJs (Some ?c) ?e = Some (Inr e')"
    and f: "Some (focusTime (config e')) = clampedJs 1000 86400000 (Num 0)"
           "Some (shortBreakTime (config e')) = clampedJs 1000 86400000 PosInfinity"
           "Some (longBreakTime (config e')) = clampedJs 1000 86400000 NegInfinity"
           "longBreakInterval (config e') = longBreakInterval (config ?e)"
    and vc: "validConfig (config ?e) \<longrightarrow> validConfig (config e')"
    and st: "\<not> isRunning (state ?e) \<longrightarrow>
        state e' = (state ?e)\<lparr>remainingTime := phaseDuration (config e') (phase (state ?e)),
                              totalTime := phaseDuration (config e') (phase (state ?e))\<rparr>"
    using configure_never_rejects [OF n, of ?e] by auto
  from f have g: "focusTime (config e') = 1000" "shortBreakTime (config e') = 86400000"
    "longBreakTime (config e') = 1000" "longBreakInterval (config e') = 4"
    using s(3) by (simp_all add: clampedJs_def clampedTo_def)
  from st s g have r: "remainingTime (state e') = 1000" "totalTime (state e') = 1000"
    by (simp_all add: phaseDuration_def)
  from e' g v vc s(1) r n(1) show ?thesis by blast
qed

section \<open>Persistence\<close>

lemma loadState_stopped: "\<not> isRunning (state e) \<Longrightarrow> \<not> isRunning (state (loadState e))"
  by (simp add: loadState_def merge_state_def split: stored.splits option.splits)

lemma merge_all_state_fields:
  "merge_state old ((all_state_fields s)\<lparr>sIsRunning := Some False\<rparr>) = s\<lparr>isRunning := False\<rparr>"
  by (cases s) (simp add: merge_state_def all_state_fields_def)

text \<open>
  Claim C7. Whatever the stored snapshot, the engine built from it is not running, also
  when the snapshot says \<^verbatim>\<open>isRunning: true\<close>. Its remaining time is the stored one:
  \<^verbatim>\<open>loadState\<close> reads no clock. In particular the snapshot that \<^verbatim>\<open>saveState\<close> wrote
  gives back the clock state at the time of the save, stopped.
\<close>

theorem loadState_stopped_with_saved_remaining:
  "\<not> isRunning (state (newTimerEngine item visible writable)) \<and>
   (\<forall>st cf r. item = Parsed (Some st) cf \<and> sRemainingTime st = Some r \<longrightarrow>
      remainingTime (state (newTimerEngine item visible writable)) = r) \<and>
   (storageWritable e \<longrightarrow>
      state (newTimerEngine (storage (saveState e)) visible writable)
        = (state e)\<lparr>isRunning := False\<rparr>)"
proof (intro conjI allI impI)
  show "\<not> isRunning (state (newTimerEngine item visible writable))"
    unfolding newTimerEngine_def by (rule loadState_stopped) simp
next
  fix st cf r
  assume "item = Parsed (Some st) cf \<and> sRemainingTime st = Some r"
  then show "remainingTime (state (newTimerEngine item visible writable)) = r"
    by (simp add: newTimerEngine_def loadState_def merge_state_def)
next
  assume "storageWritable e"
  then show "state (newTimerEngine (storage (saveState e)) visible writable)
        = (state e)\<lparr>isRunning := False\<rparr>"
    by (simp add: newTimerEngine_def loadState_def saveState_def merge_all_state_fields)
qed

theorem loadState_stopped_with_saved_remaining_witness:
  "storageWritable (tick 400000 (start 0 (newTimerEngine NoItem True True))) \<and>
   isRunning (state (tick 400000 (start 0 (newTimerEngine NoItem True True)))) \<and>
   state (newTimerEngine (storage (saveState (tick 400000 (start 0
            (newTimerEngine NoItem True True))))) True True)
     = \<lparr> phase = Focus, remainingTime = 1100000, totalTime = 1500000, isRunning = False,
         currentCycle = 0, sessionCount = 0 \<rparr> \<and>
   remainingTime (state (newTimerEngine
      (Parsed (Some \<lparr> sPhase = None, sRemainingTime = Some 42, sTotalTime = None,
                      sIsRunning = Some True, sCurrentCycle = None, sSessionCount = None \<rparr>)
              None) True True)) = 42 \<and>
   \<not> isRunning (state (newTimerEngine
      (Parsed (Some \<lparr> sPhase = None, sRemainingTime = Some 42, sTotalTime = None,
                      sIsRunning = Some True, sCurrentCycle = None, sSessionCount = None \<rparr>)
              None) True True))"
proof -
  let ?e = "tick 400000 (start 0 (newTimerEngine NoItem True True))"
  let ?item = "Parsed (Some \<lparr> sPhase = None, sRemainingTime = Some 42, sTotalTime = None,
                      sIsRunning = Some True, sCurrentCycle = None, sSessionCount = None \<rparr>)
              None"
  have w: "storageWritable ?e"
    by (simp add: tick_def start_def Let_def handlePhaseComplete_def requestAnimationFrame_def
          resetToPhase_def newTimerEngine_def loadState_def)
  have st: "state ?e = \<lparr> phase = Focus, remainingTime = 1100000, totalTime = 1500000,
                        isRunning = True, currentCycle = 0, sessionCount = 0 \<rparr>"
    by (simp add: state_tick_continues state_start clock_start toNumber_def
          newTimerEngine_def loadState_def)
  show ?thesis
    using loadState_stopped_with_saved_remaining [of ?item True True ?e]
          w st
    by simp
qed

text \<open>
  Claim C8 says that every field of a snapshot passes the validation of
  \<^verbatim>\<open>configure\<close> before it is adopted. \<^verbatim>\<open>loadState\<close> spreads the parsed objects
  into the state and the configuration as they are: a stored focus duration of 5 ms, which
  \<^verbatim>\<open>validateConfig\<close> would raise to 1000, and a stored remaining time of -5 are both
  adopted.
\<close>

theorem loadState_adopts_unvalidated_fields:
  "focusTime (config (newTimerEngine
      (Parsed (Some \<lparr> sPhase = Some Focus, sRemainingTime = Some (- 5),
                      sTotalTime = Some 1500000, sIsRunning = Some True,
                      sCurrentCycle = Some 0, sSessionCount = Some 0 \<rparr>)
              (Some \<lparr> cFocusTime = Some 5, cShortBreakTime = Some 300000,
                      cLongBreakTime = Some 900000, cLongBreakInterval = Some 4 \<rparr>))
      True True)) = 5 \<and>
   remainingTime (state (newTimerEngine
      (Parsed (Some \<lparr> sPhase = Some Focus, sRemainingTime = Some (- 5),
                      sTotalTime = Some 1500000, sIsRunning = Some True,
                      sCurrentCycle = Some 0, sSessionCount = Some 0 \<rparr>)
              (Some \<lparr> cFocusTime = Some 5, cShortBreakTime = Some 300000,
                      cLongBreakTime = Some 900000, cLongBreakInterval = Some 4 \<rparr>))
      True True)) = - 5 \<and>
   cFocusTime (validateConfig \<lparr> cFocusTime = Some 5, cShortBreakTime = Some 300000,
                      cLongBreakTime = Some 900000, cLongBreakInterval = Some 4 \<rparr>) = Some 1000"
  by (simp add: newTimerEngine_def loadState_def merge_state_def merge_config_def
        validateConfig_def)

section \<open>Phase transitions\<close>

lemma trunc_of_int: "trunc (of_int k) = k"
  by (simp add: trunc_def)

lemma js_rem_zero_iff:
  "js_rem x y = Some 0 \<longleftrightarrow> y \<noteq> 0 \<and> (\<exists>k::int. x = of_int k * y)"
proof (cases "y = 0")
  case True
  then show ?thesis by (simp add: js_rem_def)
next
  case False
  show ?thesis
  proof
    assume "js_rem x y = Some 0"
    with False have "x = of_int (trunc (x / y)) * y"
      by (simp add: js_rem_def mult.commute)
    with False show "y \<noteq> 0 \<and> (\<exists>k::int. x = of_int k * y)" by blast
  next
    assume "y \<noteq> 0 \<and> (\<exists>k::int. x = of_int k * y)"
    then obtain k :: int where k: "x = of_int k * y" by blast
    with False have "x / y = of_int k" by simp
    then have "trunc (x / y) = k" by (simp add: trunc_of_int)
    with False k show "js_rem x y = Some 0" by (simp add: js_rem_def)
  qed
qed

text \<open>
  Claim C5. For every long-break interval \<open>N\<close> the configuration can hold (any \<open>N\<close> other
  than 0), the completion of a focus phase adds one to the cycle counter, and the break
  that follows is the long one exactly when the new count is a multiple of \<open>N\<close>, the short
  one otherwise. The completion of a break leads back to the focus phase and leaves the
  counter as it is.
\<close>

theorem completion_counts_focus_and_picks_break:
  assumes "longBreakInterval (config e) \<noteq> 0"
  shows "(phase (state e) = Focus \<longrightarrow>
            currentCycle (state (handlePhaseComplete e)) = currentCycle (state e) + 1 \<and>
            phase (state (handlePhaseComplete e)) =
              (if \<exists>k::int. currentCycle (state e) + 1 = of_int k * longBreakInterval (config e)
               then LongBreak else ShortBreak)) \<and>
         (phase (state e) \<noteq> Focus \<longrightarrow>
            phase (state (handlePhaseComplete e)) = Focus \<and>
            currentCycle (state (handlePhaseComplete e)) = currentCycle (state e))"
  using assms by (simp add: state_handlePhaseComplete Let_def js_rem_zero_iff)

theorem completion_counts_focus_and_picks_break_witness:
  "longBreakInterval (config (newTimerEngine
      (Parsed (Some \<lparr> sPhase = Some Focus, sRemainingTime = Some 0, sTotalTime = Some 1500000,
                      sIsRunning = Some False, sCurrentCycle = Some 3,
                      sSessionCount = Some 3 \<rparr>) None) True True)) \<noteq> 0 \<and>
   phase (state (newTimerEngine
      (Parsed (Some \<lparr> sPhase = Some Focus, sRemainingTime = Some 0, sTotalTime = Some 1500000,
                      sIsRunning = Some False, sCurrentCycle = Some 3,
                      sSessionCount = Some 3 \<rparr>) None) True True)) = Focus \<and>
   currentCycle (state (handlePhaseComplete (newTimerEngine
      (Parsed (Some \<lparr> sPhase = Some Focus, sRemainingTime = Some 0, sTotalTime = Some 1500000,
                      sIsRunning = Some False, sCurrentCycle = Some 3,
                      sSessionCount = Some 3 \<rparr>) None) True True))) = 4 \<and>
   phase (state (handlePhaseComplete (newTimerEngine
      (Parsed (Some \<lparr> sPhase = Some Focus, sRemainingTime = Some 0, sTotalTime = Some 1500000,
                      sIsRunning = Some False, sCurrentCycle = Some 3,
                      sSessionCount = Some 3 \<rparr>) None) True True))) = LongBreak"
proof -
  let ?e = "newTimerEngine
      (Parsed (Some \<lparr> sPhase = Some Focus, sRemainingTime = Some 0, sTotalTime = Some 1500000,
                      sIsRunning = Some False, sCurrentCycle = Some 3,
                      sSessionCount = Some 3 \<rparr>) None) True True"
  have n: "longBreakInterval (config ?e) = 4" and p: "phase (state ?e) = Focus"
    and c: "currentCycle (state ?e) = 3"
    by (simp_all add: newTimerEngine_def loadState_def merge_state_def)
  have m: "\<exists>k::int. (3::real) + 1 = of_int k * 4"
    by (rule exI [of _ 1]) simp
  from n have nz: "longBreakInterval (config ?e) \<noteq> 0" by simp
  show ?thesis
    using completion_counts_focus_and_picks_break [OF nz] n p c m by simp
qed

text \<open>
  Claim C6 says that the engine has a \<^verbatim>\<open>skip\<close> operation, and that a skip while running
  leaves the new phase running. The class declares no such method, and the transition
  logic that a skip would share with natural completion stops a running engine.
\<close>

theorem skip_counterexample:
  "''skip'' \<notin> set TimerEngine_methods \<and>
   isRunning (state (start 0 (newTimerEngine NoItem True True))) \<and>
   \<not> isRunning (state (handlePhaseComplete (start 0 (newTimerEngine NoItem True True))))"
  by (simp add: TimerEngine_methods_def state_handlePhaseComplete Let_def state_start
        newTimerEngine_def loadState_def)

text \<open>
  Claim C6, as the code has it. The engine has no \<^verbatim>\<open>skip\<close> method. Its transition
  logic, \<^verbatim>\<open>handlePhaseComplete\<close>, gives in every state, running or not and whatever
  time remains, the same result: the next phase, stopped, with its full configured
  duration as remaining and total time.
\<close>

theorem no_skip_and_completion_always_stops:
  "''skip'' \<notin> set TimerEngine_methods \<and>
   \<not> isRunning (state (handlePhaseComplete e)) \<and>
   remainingTime (state (handlePhaseComplete e))
     = phaseDuration (config e) (phase (state (handlePhaseComplete e))) \<and>
   totalTime (state (handlePhaseComplete e))
     = phaseDuration (config e) (phase (state (handlePhaseComplete e))) \<and>
   state (handlePhaseComplete (e\<lparr>state := (state e)\<lparr>isRunning := b, remainingTime := r\<rparr>\<rparr>))
     = state (handlePhaseComplete e)"
  by (simp add: TimerEngine_methods_def state_handlePhaseComplete Let_def)

theorem no_skip_and_completion_always_stops_witness:
  "''skip'' \<notin> set TimerEngine_methods \<and>
   isRunning (state (start 0 (newTimerEngine NoItem True True))) \<and>
   \<not> isRunning (state (handlePhaseComplete (start 0 (newTimerEngine NoItem True True)))) \<and>
   remainingTime (state (handlePhaseComplete (start 0 (newTimerEngine NoItem True True))))
     = 300000 \<and>
   phase (state (handlePhaseComplete (start 0 (newTimerEngine NoItem True True))))
     = ShortBreak"
proof -
  let ?e = "start 0 (newTimerEngine NoItem True True)"
  have r: "isRunning (state ?e)"
    by (simp add: state_start newTimerEngine_def loadState_def)
  have c: "config ?e = \<lparr> focusTime = 1500000, shortBreakTime = 300000,
                           longBreakTime = 900000, longBreakInterval = 4 \<rparr>"
    by (simp add: clock_start newTimerEngine_def loadState_def)
  have p: "phase (state (handlePhaseComplete ?e)) = ShortBreak"
    by (simp add: state_handlePhaseComplete Let_def state_start clock_start js_rem_def
          trunc_def newTimerEngine_def loadState_def)
  show ?thesis
    using no_skip_and_completion_always_stops [of ?e] r c p
    by (simp add: phaseDuration_def)
qed

section \<open>Natural completion\<close>


lemma handles_start:
  assumes "\<not> isRunning (state e)"
  shows "rafId (start now e) = Some (nextHandle e)"
        "intervalId (start now e) = Some (nextHandle e + 1)"
        "nextHandle (start now e) = nextHandle e + 2"
  using assms by (simp_all add: start_def Let_def)


lemma effects_handlePhaseComplete:
  assumes "rafId e = Some r" "r \<noteq> 0" "intervalId e = Some i" "i \<noteq> 0"
  shows "effects (handlePhaseComplete e) =
           effects e @
           [CancelFrame r, ClearInterval i,
            Emit (TimerComplete (phase (state e)) (phase (state (handlePhaseComplete e)))
                    (currentCycle (state (handlePhaseComplete e)))
                    (sessionCount (state (handlePhaseComplete e)))),
            Emit (TimerPhaseChange (phase (state e)) (phase (state (handlePhaseComplete e)))
                    (currentCycle (state (handlePhaseComplete e))))]"
    and "rafId (handlePhaseComplete e) = None" and "intervalId (handlePhaseComplete e) = None"
  using assms
  by (simp_all add: handlePhaseComplete_def Let_def stopPrecisionTimer_def resetToPhase_def
        saveState_def emit_def)

lemma exec_keeps_stopped:
  "\<not> isRunning (state e) \<Longrightarrow> \<not> isStart x \<Longrightarrow> \<not> isRunning (state (exec x e))"
  by (cases x)
     (simp_all add: state_configure [simplified] state_pause state_reset tick_stopped
        backupCheck_stopped configure_def Let_def)

lemma run_keeps_stopped:
  "\<not> isRunning (state e) \<Longrightarrow> \<not> list_ex isStart ops \<Longrightarrow> \<not> isRunning (state (run ops e))"
  by (induction ops arbitrary: e) (simp_all add: exec_keeps_stopped)

text \<open>
  Claim C10. When a tick of a running engine brings the remaining time to 0, the engine
  is stopped afterwards. The pending animation frame and the interval are cancelled, and
  both cancellations come before the two completion events. Nothing but a call of
  \<^verbatim>\<open>start\<close> sets the engine running again: its two callbacks, \<^verbatim>\<open>configure\<close>,
  \<^verbatim>\<open>pause\<close> and \<^verbatim>\<open>reset\<close> all leave it stopped.
\<close>

theorem natural_completion_stops_the_timer:
  assumes "isRunning (state e)"
    and "remainingTime (state e) - (t - toNumber (lastTickTime e)) \<le> 0"
    and "rafId e = Some r" and "r \<noteq> 0" and "intervalId e = Some i" and "i \<noteq> 0"
  shows "\<not> isRunning (state (tick t e)) \<and>
         rafId (tick t e) = None \<and> intervalId (tick t e) = None \<and>
         effects (tick t e) =
           effects e @
           [CancelFrame r, ClearInterval i,
            Emit (TimerComplete (phase (state e)) (phase (state (tick t e)))
                    (currentCycle (state (tick t e))) (sessionCount (state (tick t e)))),
            Emit (TimerPhaseChange (phase (state e)) (phase (state (tick t e)))
                    (currentCycle (state (tick t e))))] \<and>
         (\<forall>ops. \<not> list_ex isStart ops \<longrightarrow> \<not> isRunning (state (run ops (tick t e))))"
proof -
  let ?e1 = "e\<lparr>lastTickTime := Some t, state := (state e)\<lparr>remainingTime := 0\<rparr>\<rparr>"
  have tk: "tick t e = handlePhaseComplete ?e1"
    using assms(1,2) by (rule tick_completes)
  have stopped: "\<not> isRunning (state (tick t e))"
    by (simp add: tk state_handlePhaseComplete Let_def)
  have h: "rafId ?e1 = Some r" "intervalId ?e1 = Some i"
    using assms(3,5) by simp_all
  have eff: "effects (tick t e) =
           effects e @
           [CancelFrame r, ClearInterval i,
            Emit (TimerComplete (phase (state e)) (phase (state (tick t e)))
                    (currentCycle (state (tick t e))) (sessionCount (state (tick t e)))),
            Emit (TimerPhaseChange (phase (state e)) (phase (state (tick t e)))
                    (currentCycle (state (tick t e))))]"
    unfolding tk using effects_handlePhaseComplete(1) [OF h(1) assms(4) h(2) assms(6)] by simp
  have ids: "rafId (tick t e) = None" "intervalId (tick t e) = None"
    unfolding tk
    using effects_handlePhaseComplete(2,3) [OF h(1) assms(4) h(2) assms(6)] by simp_all
  from stopped eff ids show ?thesis
    by (simp add: run_keeps_stopped)
qed

theorem natural_completion_stops_the_timer_witness:
  "isRunning (state (start 0 (newTimerEngine NoItem True True))) \<and>
   remainingTime (state (start 0 (newTimerEngine NoItem True True)))
     - (1500000 - toNumber (lastTickTime (start 0 (newTimerEngine NoItem True True)))) \<le> 0 \<and>
   rafId (start 0 (newTimerEngine NoItem True True)) = Some 1 \<and>
   intervalId (start 0 (newTimerEngine NoItem True True)) = Some 2 \<and>
   \<not> isRunning (state (tick 1500000 (start 0 (newTimerEngine NoItem True True)))) \<and>
   rafId (tick 1500000 (start 0 (newTimerEngine NoItem True True))) = None \<and>
   intervalId (tick 1500000 (start 0 (newTimerEngine NoItem True True))) = None \<and>
   \<not> isRunning (state (run [Tick 1500016, BackupCheck 1501000, Pause]
                   (tick 1500000 (start 0 (newTimerEngine NoItem True True)))))"
proof -
  let ?e = "start 0 (newTimerEngine NoItem True True)"
  have i: "\<not> isRunning (state (newTimerEngine NoItem True True))"
    "nextHandle (newTimerEngine NoItem True True) = 1"
    "remainingTime (state (newTimerEngine NoItem True True)) = 1500000"
    by (simp_all add: newTimerEngine_def loadState_def)
  have r: "isRunning (state ?e)"
    using i by (simp add: state_start)
  have z: "remainingTime (state ?e) - (1500000 - toNumber (lastTickTime ?e)) \<le> 0"
    using i by (simp add: state_start clock_start toNumber_def)
  have h: "rafId ?e = Some 1" "intervalId ?e = Some 2"
    using i by (simp_all add: handles_start)
  have n: "(1::nat) \<noteq> 0" "(2::nat) \<noteq> 0" by simp_all
  have l: "\<not> list_ex isStart [Tick 1500016, BackupCheck 1501000, Pause]" by simp
  show ?thesis
    using natural_completion_stops_the_timer [OF r z h(1) n(1) h(2) n(2)] r z h l by blast
qed

section \<open>Pause and resume\<close>

text \<open>
  Claim C1 says that the remaining time never grows while the engine runs, the interval
  callback included. That callback measures from \<^verbatim>\<open>startTimestamp\<close>, which a resume
  sets anew, against the whole \<^verbatim>\<open>totalTime\<close>: 400 s into a 25 min focus phase, a pause
  and a resume later, the remaining time is 1100000 ms, and the first interval callback,
  one second on, makes it 1499000 ms, in the same phase.
\<close>

theorem backupCheck_after_resume_raises_remaining:
  "isRunning (state (start 500000 (pause (tick 400000 (start 0
      (newTimerEngine NoItem True True)))))) \<and>
   remainingTime (state (start 500000 (pause (tick 400000 (start 0
      (newTimerEngine NoItem True True)))))) = 1100000 \<and>
   isRunning (state (backupCheck 501000 (start 500000 (pause (tick 400000 (start 0
      (newTimerEngine NoItem True True))))))) \<and>
   phase (state (backupCheck 501000 (start 500000 (pause (tick 400000 (start 0
      (newTimerEngine NoItem True True))))))) = Focus \<and>
   remainingTime (state (backupCheck 501000 (start 500000 (pause (tick 400000 (start 0
      (newTimerEngine NoItem True True))))))) = 1499000"
  by (simp add: state_backupCheck state_start clock_start state_pause clock_pause
        state_tick_continues clock_tick toNumber_def newTimerEngine_def loadState_def)




section \<open>Bounds of the remaining time\<close>

text \<open>
  Claim C4 says that \<open>0 \<le> remainingTime \<le> totalTime\<close> holds after every operation. The
  tick subtracts the difference of two timestamps and clamps at 0 only: when the frame
  timestamp is earlier than the clock reading taken by \<^verbatim>\<open>start\<close>, the remaining time
  exceeds the total.
\<close>

theorem earlier_frame_time_counterexample:
  "validConfig (config (newTimerEngine NoItem True True)) \<and>
   withinBounds (newTimerEngine NoItem True True) \<and>
   remainingTime (state (run [Start 1000, Tick 500] (newTimerEngine NoItem True True)))
     = 1500500 \<and>
   totalTime (state (run [Start 1000, Tick 500] (newTimerEngine NoItem True True)))
     = 1500000 \<and>
   \<not> withinBounds (run [Start 1000, Tick 500] (newTimerEngine NoItem True True))"
  by (simp add: withinBounds_def validConfig_def state_start clock_start
        state_tick_continues toNumber_def newTimerEngine_def loadState_def)

lemma phaseDuration_nonneg: "validConfig c \<Longrightarrow> 0 \<le> phaseDuration c p"
  by (cases p) (simp_all add: validConfig_def phaseDuration_def)

lemma anchored_later: "anchored t e \<Longrightarrow> t \<le> u \<Longrightarrow> anchored u e"
  by (auto simp add: anchored_def)

lemma withinBounds_handlePhaseComplete:
  "validConfig (config e) \<Longrightarrow> withinBounds (handlePhaseComplete e)"
  by (simp add: withinBounds_def state_handlePhaseComplete Let_def phaseDuration_nonneg)

lemma configure_keeps:
  assumes "validConfig (config e) \<and> withinBounds e \<and> anchored t e"
  shows "validConfig (config (exec (Configure c) e)) \<and> withinBounds (exec (Configure c) e) \<and>
         anchored t (exec (Configure c) e)"
proof -
  let ?e' = "projr (configure (Some c) e)"
  have ex: "exec (Configure c) e = ?e'"
    using configure_succeeds [of c e] by (cases "configure (Some c) e") simp_all
  have "validConfig (config ?e')"
    using assms by (simp add: config_configure validConfig_merge)
  moreover have "withinBounds ?e'"
    using assms
    by (simp add: withinBounds_def state_configure phaseDuration_nonneg validConfig_merge)
  moreover have "anchored t ?e'"
    using assms by (simp add: anchored_def state_configure clock_configure)
  ultimately show ?thesis unfolding ex by simp
qed

lemma start_keeps:
  assumes "validConfig (config e) \<and> withinBounds e \<and> anchored t e" and "t \<le> u"
  shows "validConfig (config (start u e)) \<and> withinBounds (start u e) \<and>
         anchored u (start u e)"
proof -
  have "validConfig (config (start u e))" using assms(1) by (simp add: clock_start)
  moreover have "withinBounds (start u e)"
    using assms(1) by (simp add: withinBounds_def state_start)
  moreover have "anchored u (start u e)"
  proof (cases "isRunning (state e)")
    case True
    then show ?thesis using anchored_later [of t e u] assms by (simp add: clock_start)
  next
    case False
    then show ?thesis by (simp add: anchored_def clock_start toNumber_def)
  qed
  ultimately show ?thesis by simp
qed

lemma pause_keeps:
  assumes "validConfig (config e) \<and> withinBounds e \<and> anchored t e"
  shows "validConfig (config (pause e)) \<and> withinBounds (pause e) \<and> anchored t (pause e)"
  using assms by (simp add: clock_pause withinBounds_def anchored_def state_pause)

lemma reset_keeps:
  assumes "validConfig (config e) \<and> withinBounds e \<and> anchored t e"
  shows "validConfig (config (reset e)) \<and> withinBounds (reset e) \<and> anchored t (reset e)"
  using assms
  by (simp add: clock_reset withinBounds_def anchored_def state_reset validConfig_def)

lemma tick_keeps:
  assumes "validConfig (config e) \<and> withinBounds e \<and> anchored t e" and "t \<le> u"
  shows "validConfig (config (tick u e)) \<and> withinBounds (tick u e) \<and> anchored u (tick u e)"
proof -
  have "validConfig (config (tick u e))" using assms(1) by (simp add: clock_tick)
  moreover have "withinBounds (tick u e)"
  proof -
    consider (stopped) "\<not> isRunning (state e)"
      | (finished) "isRunning (state e)"
          "remainingTime (state e) - (u - toNumber (lastTickTime e)) \<le> 0"
      | (going) "isRunning (state e)"
          "0 < remainingTime (state e) - (u - toNumber (lastTickTime e))"
      by linarith
    then show ?thesis
    proof cases
      case stopped
      then show ?thesis using assms(1) by (simp add: tick_stopped)
    next
      case finished
      then show ?thesis
        using assms(1) by (simp add: tick_completes withinBounds_handlePhaseComplete)
    next
      case going
      have "toNumber (lastTickTime e) \<le> u"
        using assms going(1) by (simp add: anchored_def)
      then show ?thesis
        using assms(1) going by (simp add: withinBounds_def state_tick_continues)
    qed
  qed
  moreover have "anchored u (tick u e)"
  proof (cases "isRunning (state e)")
    case False
    then show ?thesis by (simp add: tick_stopped anchored_def)
  next
    case True
    have "toNumber (startTimestamp e) \<le> u"
      using assms True by (simp add: anchored_def)
    then show ?thesis
      using True by (simp add: anchored_def clock_tick toNumber_def)
  qed
  ultimately show ?thesis by simp
qed

lemma backupCheck_keeps:
  assumes "validConfig (config e) \<and> withinBounds e \<and> anchored t e" and "t \<le> u"
  shows "validConfig (config (backupCheck u e)) \<and> withinBounds (backupCheck u e) \<and>
         anchored u (backupCheck u e)"
proof -
  have "validConfig (config (backupCheck u e))"
    using assms(1) by (simp add: clock_backupCheck)
  moreover have "withinBounds (backupCheck u e)"
  proof (cases "isRunning (state e)")
    case False
    then show ?thesis using assms(1) by (simp add: backupCheck_stopped)
  next
    case True
    have "toNumber (startTimestamp e) \<le> u"
      using assms True by (simp add: anchored_def)
    then show ?thesis
      using assms(1) by (auto simp add: withinBounds_def state_backupCheck)
  qed
  moreover have "anchored u (backupCheck u e)"
    using anchored_later [of t e u] assms
    by (simp add: anchored_def state_backupCheck clock_backupCheck)
  ultimately show ?thesis by simp
qed

lemma run_keeps_bounds:
  "validConfig (config e) \<and> withinBounds e \<and> anchored t e \<Longrightarrow> timely t ops \<Longrightarrow>
   withinBounds (run ops e)"
proof (induction ops arbitrary: e t)
  case Nil
  then show ?case by simp
next
  case (Cons x xs)
  show ?case
  proof (cases x)
    case (Configure c)
    with Cons.prems have "timely t xs" by simp
    then show ?thesis
      using Cons.IH [OF configure_keeps [OF Cons.prems(1), of c]] Configure by simp
  next
    case (Start u)
    with Cons.prems have u: "t \<le> u" "timely u xs" by simp_all
    show ?thesis
      using Cons.IH [OF start_keeps [OF Cons.prems(1) u(1)] u(2)] Start by simp
  next
    case Pause
    with Cons.prems have "timely t xs" by simp
    then show ?thesis
      using Cons.IH [OF pause_keeps [OF Cons.prems(1)]] Pause by simp
  next
    case Reset
    with Cons.prems have "timely t xs" by simp
    then show ?thesis
      using Cons.IH [OF reset_keeps [OF Cons.prems(1)]] Reset by simp
  next
    case (Tick u)
    with Cons.prems have u: "t \<le> u" "timely u xs" by simp_all
    show ?thesis
      using Cons.IH [OF tick_keeps [OF Cons.prems(1) u(1)] u(2)] Tick by simp
  next
    case (BackupCheck u)
    with Cons.prems have u: "t \<le> u" "timely u xs" by simp_all
    show ?thesis
      using Cons.IH [OF backupCheck_keeps [OF Cons.prems(1) u(1)] u(2)] BackupCheck by simp
  qed
qed

lemma timely_take: "timely t ops \<Longrightarrow> timely t (take n ops)"
proof (induction ops arbitrary: t n)
  case Nil
  then show ?case by simp
next
  case (Cons x xs)
  show ?case
  proof (cases n)
    case 0
    then show ?thesis by simp
  next
    case (Suc m)
    then show ?thesis
      using Cons.prems Cons.IH by (cases "clockReading x") auto
  qed
qed

text \<open>
  Claim C4, as the code has it. From an engine with a valid configuration and a remaining
  time within its bounds, after each step of every run of \<^verbatim>\<open>configure\<close>, \<^verbatim>\<open>start\<close>,
  \<^verbatim>\<open>pause\<close>, \<^verbatim>\<open>reset\<close> (there is no \<^verbatim>\<open>skip\<close>), ticks and interval callbacks
  whose clock readings never go back, \<open>0 \<le> remainingTime \<le> totalTime\<close> holds.
\<close>

theorem bounds_hold_while_clock_never_goes_back:
  assumes "validConfig (config e)" and "withinBounds e" and "anchored t e"
    and "timely t ops"
  shows "withinBounds (run (take n ops) e)"
  using assms by (intro run_keeps_bounds [of e t] timely_take) simp_all

theorem bounds_hold_while_clock_never_goes_back_witness:
  "validConfig (config (newTimerEngine NoItem True True)) \<and>
   withinBounds (newTimerEngine NoItem True True) \<and>
   anchored 0 (newTimerEngine NoItem True True) \<and>
   timely 0 [Configure \<lparr> cFocusTime = Some 2000, cShortBreakTime = None,
                          cLongBreakTime = None, cLongBreakInterval = Some 2 \<rparr>,
             Start 10, Tick 26, BackupCheck 1010, Pause, Start 5000, BackupCheck 6000,
             Tick 6016, Tick 9000, Reset] \<and>
   withinBounds (run (take 8
            [Configure \<lparr> cFocusTime = Some 2000, cShortBreakTime = None,
                          cLongBreakTime = None, cLongBreakInterval = Some 2 \<rparr>,
             Start 10, Tick 26, BackupCheck 1010, Pause, Start 5000, BackupCheck 6000,
             Tick 6016, Tick 9000, Reset]) (newTimerEngine NoItem True True))"
proof -
  have i: "validConfig (config (newTimerEngine NoItem True True))"
    "withinBounds (newTimerEngine NoItem True True)"
    "anchored 0 (newTimerEngine NoItem True True)"
    by (simp_all add: validConfig_def withinBounds_def anchored_def newTimerEngine_def
          loadState_def)
  have t: "timely 0 [Configure \<lparr> cFocusTime = Some 2000, cShortBreakTime = None,
                          cLongBreakTime = None, cLongBreakInterval = Some 2 \<rparr>,
             Start 10, Tick 26, BackupCheck 1010, Pause, Start 5000, BackupCheck 6000,
             Tick 6016, Tick 9000, Reset]"
    by simp
  show ?thesis
    using bounds_hold_while_clock_never_goes_back [OF i t, of 8] i t by blast
qed

end
